theory Spec2Isabelle
  imports Complex_Main "HOL-Library.Word"
begin

section \<open>Python values, exceptions and numpy arrays\<close>

text \<open>
  The module drives a host application (\<^verbatim>\<open>bpy\<close>) whose objects are mutated in place.
  A call therefore always leaves a state behind, also when it raises: a result is either
  \<open>Ok value state\<close> or \<open>Raise exception state\<close>. Floating point numbers are idealised as
  \<^typ>\<open>real\<close>.
\<close>

datatype error =
  AssertionError | ValueError | IndexError | AttributeError | ReferenceError
  | KeyError | FileNotFoundError

datatype ('a, 's) result = Ok (val: 'a) (st: 's) | Raise (err: error) (st: 's)

type_synonym bytes = "8 word list"
type_synonym vec3 = "real \<times> real \<times> real"
type_synonym mat3 = "vec3 \<times> vec3 \<times> vec3"

text \<open>
  A numpy array is its shape and its elements in row-major order. An argument that is
  "array-like" is either a nested Python list (a list of rows) or already an array.
\<close>

datatype 'a ndarray = NDArray (shape: "nat list") (flat: "'a list")

datatype 'a arraylike = Rows "'a list list" | Arr "'a ndarray"

definition ndim :: "'a ndarray \<Rightarrow> nat" where
  "ndim a = length (shape a)"

definition size_nd :: "'a ndarray \<Rightarrow> nat" where
  "size_nd a = prod_list (shape a)"

text \<open>
  \<^verbatim>\<open>numpy.asarray\<close>: an array is returned as it is; a list of rows of one length becomes
  a two-dimensional array, the empty list the one-dimensional empty array, and rows of
  different lengths are refused with \<^verbatim>\<open>ValueError\<close>.
\<close>

fun asarray :: "'a arraylike \<Rightarrow> error + 'a ndarray" where
  "asarray (Arr a) = Inr a"
| "asarray (Rows rs) =
     (if rs = [] then Inr (NDArray [0] [])
      else if list_all (\<lambda>r. length r = length (hd rs)) rs
      then Inr (NDArray [length rs, length (hd rs)] (concat rs))
      else Inl ValueError)"

text \<open>Row \<open>i\<close> of a two-dimensional array, and the rows in order (what iterating yields).\<close>

definition row :: "'a ndarray \<Rightarrow> nat \<Rightarrow> 'a list" where
  "row a i = take (shape a ! 1) (drop (i * (shape a ! 1)) (flat a))"

definition rows :: "'a ndarray \<Rightarrow> 'a list list" where
  "rows a = map (row a) [0..<shape a ! 0]"

text \<open>
  The truth value Python gives the \<^verbatim>\<open>colors\<close> argument in \<^verbatim>\<open>if colors:\<close>. \<^verbatim>\<open>None\<close> and
  the empty list are false, a non-empty list is true; an array with more than one
  element has no truth value (\<^verbatim>\<open>ValueError\<close>), an array with one element has that of
  its element, and an empty array is false.
\<close>

fun truth :: "real arraylike option \<Rightarrow> error + bool" where
  "truth None = Inr False"
| "truth (Some (Rows rs)) = Inr (rs \<noteq> [])"
| "truth (Some (Arr a)) =
     (if size_nd a = 0 then Inr False
      else if size_nd a = 1 then Inr (hd (flat a) \<noteq> 0)
      else Inl ValueError)"

section \<open>The host's object model\<close>

text \<open>
  Data-blocks live in the host's registries (\<^verbatim>\<open>bpy.data.meshes\<close>, \<^verbatim>\<open>bpy.data.objects\<close>,
  ...). A Python reference to a data-block is its index in the registry, so that a
  mutation through one reference is seen through every other. An entry of a color
  attribute that was never assigned is \<open>None\<close>: the value the host initialised it with.
  A data-block keeps the name it was created with: the suffix the host adds to a name
  that is taken is not modelled, and neither is any failure inside the host.
\<close>

record color_attribute =
  attr_name :: string
  attr_type :: string
  attr_domain :: string
  attr_data :: "real list option list"

datatype node = Principled_BSDF | Material_Output | ShaderNodeVertexColor (layer_name: string)

record material =
  material_name :: string
  use_nodes :: bool
  nodes :: "node list"
  links :: "((nat \<times> nat) \<times> (nat \<times> nat)) list"

record mesh =
  mesh_name :: string
  mesh_vertices :: "real list list"
  mesh_edges :: "int list list"
  mesh_faces :: "int list list"
  color_attributes :: "color_attribute list"
  mesh_materials :: "nat list"

record camera_data =
  camera_name :: string
  lens :: real

record light_data =
  light_name :: string
  light_type :: string
  energy :: real

datatype object_data = MeshData nat | CameraData nat | LightData nat

record object =
  object_name :: string
  data :: object_data
  location :: vec3
  rotation_euler :: vec3

datatype collection = Collection string "collection list" "nat list"

record render_settings =
  engine :: string
  render_resolution_x :: int
  render_resolution_y :: int
  filepath :: string

text \<open>
  \<open>children\<close> and \<open>objects\<close> are \<^verbatim>\<open>scene.collection.children\<close> and
  \<^verbatim>\<open>scene.collection.objects\<close>: the child collections of the scene's root collection and
  the objects linked to it directly.
\<close>

record scene =
  children :: "collection list"
  objects :: "nat list"
  scene_camera :: "nat option"
  render :: render_settings

record bpy =
  data_meshes :: "mesh list"
  data_materials :: "material list"
  data_cameras :: "camera_data list"
  data_lights :: "light_data list"
  data_objects :: "object list"
  context_scene :: scene
  use_denoising :: bool

text \<open>
  The world outside the host's memory: the file system, the bytes written so far to the
  caller's stream, and the host state at each invocation of the render operator.
\<close>

record world =
  host :: bpy
  files :: "string \<rightharpoonup> bytes"
  stream :: bytes
  renders :: "bpy list"

subsection \<open>Host operations\<close>

definition meshes_new :: "string \<Rightarrow> bpy \<Rightarrow> nat \<times> bpy" where
  "meshes_new name b =
     (length (data_meshes b),
      b\<lparr>data_meshes := data_meshes b @
          [\<lparr>mesh_name = name, mesh_vertices = [], mesh_edges = [], mesh_faces = [],
            color_attributes = [], mesh_materials = []\<rparr>]\<rparr>)"

definition from_pydata :: "nat \<Rightarrow> real list list \<Rightarrow> int list list \<Rightarrow> int list list \<Rightarrow> bpy \<Rightarrow> bpy" where
  "from_pydata m vs es fs b =
     b\<lparr>data_meshes := (data_meshes b)
          [m := (data_meshes b ! m)\<lparr>mesh_vertices := vs, mesh_edges := es, mesh_faces := fs\<rparr>]\<rparr>"

definition objects_new :: "string \<Rightarrow> object_data \<Rightarrow> bpy \<Rightarrow> nat \<times> bpy" where
  "objects_new name d b =
     (length (data_objects b),
      b\<lparr>data_objects := data_objects b @
          [\<lparr>object_name = name, data = d, location = (0, 0, 0), rotation_euler = (0, 0, 0)\<rparr>]\<rparr>)"

definition cameras_new :: "string \<Rightarrow> bpy \<Rightarrow> nat \<times> bpy" where
  "cameras_new name b =
     (length (data_cameras b),
      b\<lparr>data_cameras := data_cameras b @ [\<lparr>camera_name = name, lens = 50\<rparr>]\<rparr>)"

definition lights_new :: "string \<Rightarrow> string \<Rightarrow> bpy \<Rightarrow> nat \<times> bpy" where
  "lights_new name type b =
     (length (data_lights b),
      b\<lparr>data_lights := data_lights b @ [\<lparr>light_name = name, light_type = type, energy = 10\<rparr>]\<rparr>)"

definition materials_new :: "string \<Rightarrow> bpy \<Rightarrow> nat \<times> bpy" where
  "materials_new name b =
     (length (data_materials b),
      b\<lparr>data_materials := data_materials b @
          [\<lparr>material_name = name, use_nodes = False, nodes = [], links = []\<rparr>]\<rparr>)"

definition update_object :: "nat \<Rightarrow> (object \<Rightarrow> object) \<Rightarrow> bpy \<Rightarrow> bpy" where
  "update_object obj f b = b\<lparr>data_objects := (data_objects b)[obj := f (data_objects b ! obj)]\<rparr>"

definition update_mesh :: "nat \<Rightarrow> (mesh \<Rightarrow> mesh) \<Rightarrow> bpy \<Rightarrow> bpy" where
  "update_mesh m f b = b\<lparr>data_meshes := (data_meshes b)[m := f (data_meshes b ! m)]\<rparr>"

definition update_material :: "nat \<Rightarrow> (material \<Rightarrow> material) \<Rightarrow> bpy \<Rightarrow> bpy" where
  "update_material m f b =
     b\<lparr>data_materials := (data_materials b)[m := f (data_materials b ! m)]\<rparr>"

definition update_scene :: "(scene \<Rightarrow> scene) \<Rightarrow> bpy \<Rightarrow> bpy" where
  "update_scene f b = b\<lparr>context_scene := f (context_scene b)\<rparr>"

definition update_render :: "(render_settings \<Rightarrow> render_settings) \<Rightarrow> bpy \<Rightarrow> bpy" where
  "update_render f b = update_scene (\<lambda>s. s\<lparr>render := f (render s)\<rparr>) b"

text \<open>\<^verbatim>\<open>scene.collection.objects.link(obj)\<close>.\<close>

definition objects_link :: "nat \<Rightarrow> bpy \<Rightarrow> bpy" where
  "objects_link obj b = update_scene (\<lambda>s. s\<lparr>objects := objects s @ [obj]\<rparr>) b"

text \<open>\<^verbatim>\<open>scene.collection.children.unlink(c)\<close>.\<close>

definition children_unlink :: "collection \<Rightarrow> bpy \<Rightarrow> bpy" where
  "children_unlink c b = update_scene (\<lambda>s. s\<lparr>children := remove1 c (children s)\<rparr>) b"

text \<open>
  \<^verbatim>\<open>obj.data\<close> as a mesh: the mesh an object reference points to. A reference to an
  object that the host no longer has is a \<^verbatim>\<open>ReferenceError\<close>; an object whose data is a
  camera or a light has no \<^verbatim>\<open>color_attributes\<close>.
\<close>

definition object_mesh :: "nat \<Rightarrow> bpy \<Rightarrow> error + nat" where
  "object_mesh obj b =
     (if obj < length (data_objects b) then
        (case data (data_objects b ! obj) of
           MeshData m \<Rightarrow> if m < length (data_meshes b) then Inr m else Inl ReferenceError
         | CameraData c \<Rightarrow> Inl AttributeError
         | LightData l \<Rightarrow> Inl AttributeError)
      else Inl ReferenceError)"

text \<open>
  \<^verbatim>\<open>mesh.color_attributes.new(name, type, domain)\<close> with the domain \<^verbatim>\<open>POINT\<close>: one entry
  for each vertex of the mesh. The result is the index of the attribute in the mesh.
\<close>

definition color_attributes_new :: "nat \<Rightarrow> string \<Rightarrow> string \<Rightarrow> string \<Rightarrow> bpy \<Rightarrow> nat \<times> bpy" where
  "color_attributes_new m name type domain b =
     (length (color_attributes (data_meshes b ! m)),
      update_mesh m (\<lambda>me. me\<lparr>color_attributes := color_attributes me @
          [\<lparr>attr_name = name, attr_type = type, attr_domain = domain,
            attr_data = replicate (length (mesh_vertices me)) None\<rparr>]\<rparr>) b)"

text \<open>
  Euler angles (order XYZ, the host's default) to a rotation matrix, given by its rows,
  and the product of a matrix with a vector.
\<close>

definition to_matrix :: "vec3 \<Rightarrow> mat3" where
  "to_matrix e =
     (case e of (x, y, z) \<Rightarrow>
        ((cos y * cos z, sin y * (sin x * cos z) - cos x * sin z, sin y * (cos x * cos z) + sin x * sin z),
         (cos y * sin z, sin y * (sin x * sin z) + cos x * cos z, sin y * (cos x * sin z) - sin x * cos z),
         (- sin y, cos y * sin x, cos y * cos x)))"

definition matmul_vec :: "mat3 \<Rightarrow> vec3 \<Rightarrow> vec3" where
  "matmul_vec m v =
     (case m of ((a11, a12, a13), (a21, a22, a23), (a31, a32, a33)) \<Rightarrow>
      case v of (x, y, z) \<Rightarrow>
        (a11 * x + a12 * y + a13 * z, a21 * x + a22 * y + a23 * z, a31 * x + a32 * y + a33 * z))"

definition euclidean_norm :: "vec3 \<Rightarrow> real" where
  "euclidean_norm v = (case v of (x, y, z) \<Rightarrow> sqrt (x * x + y * y + z * z))"

text \<open>
  The render operator with \<^verbatim>\<open>write_still = True\<close>: the host renders its scene and writes
  the image file at \<^verbatim>\<open>scene.render.filepath\<close>. What the image is, is the host's business:
  \<open>render_image\<close> is a parameter of the model.
\<close>

definition ops_render_render :: "(bpy \<Rightarrow> bytes) \<Rightarrow> world \<Rightarrow> world" where
  "ops_render_render render_image w =
     w\<lparr>files := (files w)(filepath (render (context_scene (host w))) \<mapsto> render_image (host w)),
       renders := renders w @ [host w]\<rparr>"

section \<open>The module\<close>

subsection \<open>\<^verbatim>\<open>mesh_from_tri\<close>\<close>

definition mesh_from_tri :: "string \<Rightarrow> real arraylike \<Rightarrow> int arraylike \<Rightarrow> bpy \<Rightarrow> (nat, bpy) result" where
  "mesh_from_tri name vertices triangles b =
     (case asarray vertices of Inl e \<Rightarrow> Raise e b | Inr vs \<Rightarrow>
      case asarray triangles of Inl e \<Rightarrow> Raise e b | Inr ts \<Rightarrow>
      if \<not> (if ndim vs = 2 \<and> ndim ts = 2 then shape vs ! 1 = 3 \<and> shape ts ! 1 = 3 else False)
      then Raise AssertionError b
      else
        (case meshes_new name b of (mesh, b1) \<Rightarrow>
         case objects_new name (MeshData mesh) (from_pydata mesh (rows vs) [] (rows ts) b1) of
           (obj, b2) \<Rightarrow> Ok obj b2))"

subsection \<open>\<^verbatim>\<open>add_vertex_colors\<close>\<close>

text \<open>
  The loop \<^verbatim>\<open>for i, color in enumerate(colors): attr.data[i].color = color\<close> on the data of
  the attribute; an index past the end of \<^verbatim>\<open>attr.data\<close> is the host's \<^verbatim>\<open>IndexError\<close>, and
  the entries assigned before it stay assigned.
\<close>

fun assign_colors :: "nat \<Rightarrow> real list list \<Rightarrow> real list option list \<Rightarrow> (unit, real list option list) result" where
  "assign_colors i [] d = Ok () d"
| "assign_colors i (color # rest) d =
     (if i < length d then assign_colors (Suc i) rest (d[i := Some color])
      else Raise IndexError d)"

definition set_attr_data :: "nat \<Rightarrow> nat \<Rightarrow> real list option list \<Rightarrow> bpy \<Rightarrow> bpy" where
  "set_attr_data m attr d b =
     update_mesh m (\<lambda>me. me\<lparr>color_attributes :=
        (color_attributes me)[attr := (color_attributes me ! attr)\<lparr>attr_data := d\<rparr>]\<rparr>) b"

text \<open>The result is the reference to the new attribute: the mesh and the attribute's index.\<close>

definition add_vertex_colors :: "nat \<Rightarrow> string \<Rightarrow> real arraylike \<Rightarrow> bpy \<Rightarrow> (nat \<times> nat, bpy) result" where
  "add_vertex_colors obj name colors b =
     (case asarray colors of Inl e \<Rightarrow> Raise e b | Inr cs \<Rightarrow>
      if \<not> (if ndim cs = 2 then shape cs ! 1 = 4 else False) then Raise AssertionError b
      else
        (case object_mesh obj b of Inl e \<Rightarrow> Raise e b | Inr m \<Rightarrow>
         case color_attributes_new m name ''FLOAT_COLOR'' ''POINT'' b of (attr, b1) \<Rightarrow>
         case assign_colors 0 (rows cs) (attr_data (color_attributes (data_meshes b1 ! m) ! attr)) of
           Raise e d \<Rightarrow> Raise e (set_attr_data m attr d b1)
         | Ok u d \<Rightarrow> Ok (m, attr) (set_attr_data m attr d b1)))"

subsection \<open>\<^verbatim>\<open>add_vertex_colors_and_material\<close>\<close>

text \<open>
  Switching \<^verbatim>\<open>use_nodes\<close> on gives the material its node tree, preloaded with the shader
  node and the output node, linked. \<^verbatim>\<open>nodes['Principled BSDF']\<close> is the index of the shader
  node, a \<^verbatim>\<open>KeyError\<close> when there is none.
\<close>

definition set_use_nodes :: "nat \<Rightarrow> bpy \<Rightarrow> bpy" where
  "set_use_nodes mat b =
     update_material mat (\<lambda>m. m\<lparr>use_nodes := True,
        nodes := (if nodes m = [] then [Principled_BSDF, Material_Output] else nodes m),
        links := (if nodes m = [] then [((0, 0), (1, 0))] else links m)\<rparr>) b"

fun find_node :: "node \<Rightarrow> node list \<Rightarrow> nat \<Rightarrow> nat option" where
  "find_node n [] i = None"
| "find_node n (x # xs) i = (if x = n then Some i else find_node n xs (Suc i))"

definition add_vertex_colors_and_material ::
    "nat \<Rightarrow> string \<Rightarrow> real arraylike \<Rightarrow> bpy \<Rightarrow> ((nat \<times> nat) \<times> nat, bpy) result" where
  "add_vertex_colors_and_material obj name colors b =
     (case add_vertex_colors obj name colors b of Raise e b1 \<Rightarrow> Raise e b1
      | Ok color_attr b1 \<Rightarrow>
        (case materials_new name b1 of (mat, b2) \<Rightarrow>
         let b3 = set_use_nodes mat b2 in
         case find_node Principled_BSDF (nodes (data_materials b3 ! mat)) 0 of
           None \<Rightarrow> Raise KeyError b3
         | Some shader \<Rightarrow>
             let vertex_colors = length (nodes (data_materials b3 ! mat));
                 layer = attr_name (color_attributes (data_meshes b3 ! fst color_attr) ! snd color_attr);
                 b4 = update_material mat (\<lambda>m. m\<lparr>nodes := nodes m @ [ShaderNodeVertexColor layer]\<rparr>) b3;
                 b5 = update_material mat (\<lambda>m. m\<lparr>links := links m @ [((vertex_colors, 0), (shader, 0))]\<rparr>) b4;
                 b6 = update_mesh (fst color_attr) (\<lambda>me. me\<lparr>mesh_materials := mesh_materials me @ [mat]\<rparr>) b5
             in Ok (color_attr, mat) b6))"

subsection \<open>\<^verbatim>\<open>_ensure_filename\<close> and \<^verbatim>\<open>render_tri\<close>\<close>

record kwargs =
  colors :: "real arraylike option"
  camera_rotation :: vec3
  camera_distance :: real
  camera_focal_length :: real
  light_distance :: real
  light_energy :: real
  renderer :: string
  resolution_x :: int
  resolution_y :: int

definition default_kwargs :: kwargs where
  "default_kwargs =
     \<lparr>colors = None, camera_rotation = (7 / 10, 0, 8 / 10), camera_distance = 5,
      camera_focal_length = 35, light_distance = 5, light_energy = 300,
      renderer = ''CYCLES'', resolution_x = 800, resolution_y = 600\<rparr>"

text \<open>
  \<^verbatim>\<open>for c in scene.collection.children: scene.collection.children.unlink(c)\<close>. The host's
  iterator has moved on to the next child before the body runs, so that unlinking the
  child just visited does not disturb it: every child is visited.
\<close>

fun unlink_each :: "collection list \<Rightarrow> bpy \<Rightarrow> bpy" where
  "unlink_each [] b = b"
| "unlink_each (c # cs) b = unlink_each cs (children_unlink c b)"

definition clear_the_scene :: "bpy \<Rightarrow> bpy" where
  "clear_the_scene b = unlink_each (children (context_scene b)) b"

text \<open>The part of \<^verbatim>\<open>render_tri\<close> under \<^verbatim>\<open># Add a mesh\<close>.\<close>

definition add_a_mesh :: "real arraylike \<Rightarrow> int arraylike \<Rightarrow> real arraylike option \<Rightarrow> bpy \<Rightarrow> (unit, bpy) result" where
  "add_a_mesh vertices triangles cols b =
     (case mesh_from_tri ''mesh'' vertices triangles b of Raise e b1 \<Rightarrow> Raise e b1
      | Ok mesh b1 \<Rightarrow>
        (case truth cols of Inl e \<Rightarrow> Raise e b1
         | Inr t \<Rightarrow>
           (case cols of
              Some cs \<Rightarrow>
                if t then
                  (case add_vertex_colors_and_material mesh ''Col'' cs b1 of
                     Raise e b2 \<Rightarrow> Raise e b2
                   | Ok r b2 \<Rightarrow> Ok () (objects_link mesh b2))
                else Ok () (objects_link mesh b1)
            | None \<Rightarrow> Ok () (objects_link mesh b1))))"

text \<open>The part under \<^verbatim>\<open>## Add a camera\<close>.\<close>

definition add_a_camera :: "vec3 \<Rightarrow> real \<Rightarrow> real \<Rightarrow> bpy \<Rightarrow> bpy" where
  "add_a_camera rotation distance focal_length b =
     (case cameras_new ''camera'' b of (cam, b1) \<Rightarrow>
      let b2 = b1\<lparr>data_cameras := (data_cameras b1)[cam := (data_cameras b1 ! cam)\<lparr>lens := focal_length\<rparr>]\<rparr> in
      case objects_new (camera_name (data_cameras b2 ! cam)) (CameraData cam) b2 of (camera, b3) \<Rightarrow>
      let b4 = update_object camera (\<lambda>ob. ob\<lparr>location := (0, 0, 0)\<rparr>) b3;
          b5 = update_object camera (\<lambda>ob. ob\<lparr>rotation_euler := rotation\<rparr>) b4;
          b6 = update_object camera
                 (\<lambda>ob. ob\<lparr>location := matmul_vec (to_matrix (rotation_euler ob)) (0, 0, distance)\<rparr>) b5;
          b7 = objects_link camera b6
      in update_scene (\<lambda>s. s\<lparr>scene_camera := Some camera\<rparr>) b7)"

text \<open>The part under \<^verbatim>\<open># Add a light source\<close>.\<close>

definition add_a_light_source :: "real \<Rightarrow> real \<Rightarrow> bpy \<Rightarrow> bpy" where
  "add_a_light_source distance watt b =
     (case lights_new ''light'' ''POINT'' b of (li, b1) \<Rightarrow>
      let b2 = b1\<lparr>data_lights := (data_lights b1)[li := (data_lights b1 ! li)\<lparr>energy := watt\<rparr>]\<rparr> in
      case objects_new (light_name (data_lights b2 ! li)) (LightData li) b2 of (light, b3) \<Rightarrow>
      let b4 = update_object light (\<lambda>ob. ob\<lparr>location := (0, 0, distance)\<rparr>) b3
      in objects_link light b4)"

text \<open>The part under \<^verbatim>\<open># Render\<close>, up to the call of the render operator.\<close>

definition render_setup :: "string \<Rightarrow> kwargs \<Rightarrow> bpy \<Rightarrow> bpy" where
  "render_setup output kw b =
     (let b1 = b\<lparr>use_denoising := False\<rparr>;
          b2 = update_render (\<lambda>r. r\<lparr>engine := ''CYCLES''\<rparr>) b1;
          b3 = update_render (\<lambda>r. r\<lparr>render_resolution_x := resolution_x kw\<rparr>) b2;
          b4 = update_render (\<lambda>r. r\<lparr>render_resolution_y := resolution_y kw\<rparr>) b3
      in update_render (\<lambda>r. r\<lparr>filepath := output\<rparr>) b4)"

text \<open>\<^verbatim>\<open>render_tri\<close> as it is written, before the decorator is applied.\<close>

definition render_tri_undecorated ::
    "(bpy \<Rightarrow> bytes) \<Rightarrow> string \<Rightarrow> real arraylike \<Rightarrow> int arraylike \<Rightarrow> kwargs \<Rightarrow> world \<Rightarrow> (unit, world) result" where
  "render_tri_undecorated render_image output vertices triangles kw w =
     (case add_a_mesh vertices triangles (colors kw) (clear_the_scene (host w)) of
        Raise e b \<Rightarrow> Raise e (w\<lparr>host := b\<rparr>)
      | Ok u b \<Rightarrow>
          let b1 = add_a_camera (camera_rotation kw) (camera_distance kw) (camera_focal_length kw) b;
              b2 = add_a_light_source (light_distance kw) (light_energy kw) b1;
              b3 = render_setup output kw b2
          in Ok () (ops_render_render render_image (w\<lparr>host := b3\<rparr>)))"

text \<open>
  The output argument: something \<^verbatim>\<open>os.fspath\<close> accepts (a path), or the caller's stream.
  \<open>tmpdir\<close> is the directory \<^verbatim>\<open>TemporaryDirectory()\<close> creates; it is removed with all it
  holds when the \<^verbatim>\<open>with\<close> block is left, also by an exception.
\<close>

datatype output_arg = Filename string | Stream

definition cleanup :: "string \<Rightarrow> world \<Rightarrow> world" where
  "cleanup tmpdir w =
     w\<lparr>files := (\<lambda>p. if take (length (tmpdir @ ''/'')) p = tmpdir @ ''/'' then None else files w p)\<rparr>"

definition ensure_filename ::
    "(string \<Rightarrow> world \<Rightarrow> (unit, world) result) \<Rightarrow> string \<Rightarrow> output_arg \<Rightarrow> world \<Rightarrow> (unit, world) result" where
  "ensure_filename f tmpdir out w =
     (case out of
        Filename p \<Rightarrow> f p w
      | Stream \<Rightarrow>
          let tmpfile = tmpdir @ ''/'' @ ''out.png'' in
          (case f tmpfile w of
             Raise e w1 \<Rightarrow> Raise e (cleanup tmpdir w1)
           | Ok u w1 \<Rightarrow>
               (case files w1 tmpfile of
                  None \<Rightarrow> Raise FileNotFoundError (cleanup tmpdir w1)
                | Some src \<Rightarrow> Ok () (cleanup tmpdir (w1\<lparr>stream := stream w1 @ src\<rparr>)))))"

definition render_tri ::
    "(bpy \<Rightarrow> bytes) \<Rightarrow> string \<Rightarrow> output_arg \<Rightarrow> real arraylike \<Rightarrow> int arraylike \<Rightarrow> kwargs \<Rightarrow> world \<Rightarrow> (unit, world) result" where
  "render_tri render_image tmpdir out vertices triangles kw w =
     ensure_filename (\<lambda>p. render_tri_undecorated render_image p vertices triangles kw) tmpdir out w"

section \<open>Notions of the specification and example inputs\<close>

text \<open>
  The specification's "two-dimensional array with \<open>c\<close> columns" (an \<open>N \<times> c\<close> array), stated on
  the shape alone.
\<close>

definition two_dimensional_with_columns :: "'a ndarray \<Rightarrow> nat \<Rightarrow> bool" where
  "two_dimensional_with_columns a c = (case shape a of [n, m] \<Rightarrow> m = c | _ \<Rightarrow> False)"

text \<open>\<^verbatim>\<open>scene.camera.location\<close>, when the scene has a camera.\<close>

definition scene_camera_location :: "bpy \<Rightarrow> vec3 option" where
  "scene_camera_location b =
     (case scene_camera (context_scene b) of
        None \<Rightarrow> None
      | Some cam \<Rightarrow> Some (location (data_objects b ! cam)))"

text \<open>
  A host state to run the module on: a scene whose root collection has one child
  collection, which holds a camera; and a triangle to render.
\<close>

definition example_bpy :: bpy where
  "example_bpy =
     \<lparr>data_meshes = [], data_materials = [],
      data_cameras = [\<lparr>camera_name = ''Camera'', lens = 50\<rparr>],
      data_lights = [],
      data_objects = [\<lparr>object_name = ''Camera'', data = CameraData 0,
                       location = (0, 0, 0), rotation_euler = (0, 0, 0)\<rparr>],
      context_scene =
        \<lparr>children = [Collection ''Collection'' [] [0]], objects = [], scene_camera = Some 0,
         render = \<lparr>engine = ''BLENDER_EEVEE'', render_resolution_x = 1920,
                   render_resolution_y = 1080, filepath = ''/tmp/''\<rparr>\<rparr>,
      use_denoising = True\<rparr>"

definition example_world :: world where
  "example_world = \<lparr>host = example_bpy, files = Map.empty, stream = [], renders = []\<rparr>"

definition triangle_vertices :: "real arraylike" where
  "triangle_vertices = Rows [[0, 0, 0], [1, 0, 0], [0, 1, 0]]"

definition triangle_faces :: "int arraylike" where
  "triangle_faces = Rows [[0, 1, 2]]"

text \<open>A renderer for the examples: its image tells how many objects the scene's root links.\<close>

definition object_count_image :: "bpy \<Rightarrow> bytes" where
  "object_count_image b = [of_nat (length (objects (context_scene b)))]"

text \<open>
  The host state after \<^verbatim>\<open>mesh_from_tri\<close> has built the triangle (a mesh of three vertices,
  object 1), and two color arguments for it: an array of two rows and a list of three.
\<close>

definition example_mesh_bpy :: bpy where
  "example_mesh_bpy = st (mesh_from_tri ''mesh'' triangle_vertices triangle_faces example_bpy)"

definition two_colors :: "real arraylike" where
  "two_colors = Arr (NDArray [2, 4] [1, 0, 0, 1, 0, 1, 0, 1])"

definition three_colors :: "real arraylike" where
  "three_colors = Rows [[1, 0, 0, 1], [0, 1, 0, 1], [0, 0, 1, 1]]"

text \<open>
  The state of the host's data after a mesh was added to \<open>b\<close> with no color attribute and
  no material attached to it, and with no material created.
\<close>

definition no_colors_attached :: "bpy \<Rightarrow> bpy \<Rightarrow> bool" where
  "no_colors_attached b b' =
     (data_materials b' = data_materials b
      \<and> data_meshes b' \<noteq> [] \<and> butlast (data_meshes b') = data_meshes b
      \<and> color_attributes (last (data_meshes b')) = []
      \<and> mesh_materials (last (data_meshes b')) = [])"

text \<open>
  More inputs: a \<open>3 \<times> 4\<close> numpy array of colors; keyword arguments asking for another render
  engine; keyword arguments with a negative camera distance; and two calls in a row on
  the same host.
\<close>

definition twelve_colors :: "real ndarray" where
  "twelve_colors = NDArray [3, 4] [1, 0, 0, 1, 0, 1, 0, 1, 0, 0, 1, 1]"

definition eevee_kwargs :: kwargs where
  "eevee_kwargs = default_kwargs\<lparr>renderer := ''BLENDER_EEVEE''\<rparr>"

definition behind_kwargs :: kwargs where
  "behind_kwargs = default_kwargs\<lparr>camera_rotation := (0, 0, 0), camera_distance := - 1\<rparr>"

definition first_call :: "(unit, world) result" where
  "first_call =
     render_tri object_count_image ''/tmp/tmpdir'' (Filename ''first.png'')
       triangle_vertices triangle_faces default_kwargs example_world"

definition second_call :: "(unit, world) result" where
  "second_call =
     render_tri object_count_image ''/tmp/tmpdir'' (Filename ''second.png'')
       triangle_vertices triangle_faces default_kwargs (st first_call)"

section \<open>Shape checks of \<^verbatim>\<open>mesh_from_tri\<close>\<close>

lemma two_dimensional_with_columns_iff:
  "two_dimensional_with_columns a c = (if ndim a = 2 then shape a ! 1 = c else False)"
  by (cases a) (auto simp: two_dimensional_with_columns_def ndim_def split: list.splits)

text \<open>
  C3. Once both arguments are converted to arrays, \<^verbatim>\<open>mesh_from_tri\<close> raises
  \<^verbatim>\<open>AssertionError\<close> exactly when the vertex array or the triangle array is not a
  two-dimensional array with 3 columns, and it returns the new object exactly when both
  are.
\<close>

theorem mesh_from_tri_shape_assertion:
  assumes "asarray vertices = Inr vs" and "asarray triangles = Inr ts"
  shows "((\<exists>b'. mesh_from_tri name vertices triangles b = Raise AssertionError b') =
           (\<not> two_dimensional_with_columns vs 3 \<or> \<not> two_dimensional_with_columns ts 3))
       \<and> ((two_dimensional_with_columns vs 3 \<and> two_dimensional_with_columns ts 3) =
           (\<exists>obj b'. mesh_from_tri name vertices triangles b = Ok obj b'))"
  using assms
  by (auto simp: mesh_from_tri_def two_dimensional_with_columns_iff meshes_new_def objects_new_def
           split: if_splits)

theorem mesh_from_tri_shape_assertion_witness:
  "asarray triangle_vertices = Inr (NDArray [3, 3] [0, 0, 0, 1, 0, 0, 0, 1, 0])
   \<and> asarray triangle_faces = Inr (NDArray [1, 3] [0, 1, 2])
   \<and> two_dimensional_with_columns (NDArray [3, 3] [0, 0, 0, 1, 0, 0, 0, 1, 0 :: real]) 3
   \<and> two_dimensional_with_columns (NDArray [1, 3] [0, 1, 2 :: int]) 3
   \<and> is_Ok (mesh_from_tri ''mesh'' triangle_vertices triangle_faces example_bpy)"
proof -
  have v: "asarray triangle_vertices = Inr (NDArray [3, 3] [0, 0, 0, 1, 0, 0, 0, 1, 0])"
    by (simp add: triangle_vertices_def)
  have t: "asarray triangle_faces = Inr (NDArray [1, 3] [0, 1, 2])"
    by (simp add: triangle_faces_def)
  show ?thesis
    using v t mesh_from_tri_shape_assertion [OF v t, of "''mesh''" example_bpy]
    by (auto simp: two_dimensional_with_columns_def)
qed

section \<open>\<^verbatim>\<open>add_vertex_colors\<close>\<close>

lemma assign_colors_fits:
  "i + length rs \<le> length d \<Longrightarrow>
   assign_colors i rs d = Ok () (take i d @ map Some rs @ drop (i + length rs) d)"
proof (induction rs arbitrary: i d)
  case Nil
  then show ?case by simp
next
  case (Cons r rs)
  from Cons.prems have i: "i < length d" by simp
  have "take (Suc i) (d[i := Some r]) = take i d @ [Some r]"
    using i by (simp add: take_Suc_conv_app_nth)
  moreover have "drop (Suc i + length rs) (d[i := Some r]) = drop (Suc i + length rs) d"
    by (simp add: drop_update_cancel)
  ultimately show ?case
    using Cons.prems i Cons.IH [of "Suc i" "d[i := Some r]"] by simp
qed

lemma assign_colors_overflow:
  "i \<le> length d \<Longrightarrow> length d < i + length rs \<Longrightarrow> \<exists>d'. assign_colors i rs d = Raise IndexError d'"
  by (induction rs arbitrary: i d) auto

lemma length_rows: "length (rows a) = shape a ! 0"
  by (simp add: rows_def)

lemma object_mesh_valid: "object_mesh obj b = Inr m \<Longrightarrow> m < length (data_meshes b)"
  by (auto simp: object_mesh_def split: if_splits object_data.splits)

lemma new_attr_data:
  "m < length (data_meshes b) \<Longrightarrow>
   color_attributes_new m name type domain b = (attr, b1) \<Longrightarrow>
   attr = length (color_attributes (data_meshes b ! m)) \<and>
   color_attributes (data_meshes b1 ! m) =
     color_attributes (data_meshes b ! m) @
       [\<lparr>attr_name = name, attr_type = type, attr_domain = domain,
         attr_data = replicate (length (mesh_vertices (data_meshes b ! m))) None\<rparr>]"
  by (auto simp: color_attributes_new_def update_mesh_def)

lemma add_vertex_colors_cases:
  assumes "asarray cols = Inr cs" and "object_mesh obj b = Inr m"
  shows "add_vertex_colors obj name cols b =
     (if \<not> two_dimensional_with_columns cs 4 then Raise AssertionError b
      else case assign_colors 0 (rows cs) (replicate (length (mesh_vertices (data_meshes b ! m))) None) of
        Raise e d \<Rightarrow> Raise e (set_attr_data m (length (color_attributes (data_meshes b ! m))) d
                      (snd (color_attributes_new m name ''FLOAT_COLOR'' ''POINT'' b)))
      | Ok u d \<Rightarrow> Ok (m, length (color_attributes (data_meshes b ! m)))
                   (set_attr_data m (length (color_attributes (data_meshes b ! m))) d
                      (snd (color_attributes_new m name ''FLOAT_COLOR'' ''POINT'' b))))"
proof -
  obtain attr b1 where n: "color_attributes_new m name ''FLOAT_COLOR'' ''POINT'' b = (attr, b1)"
    by (cases "color_attributes_new m name ''FLOAT_COLOR'' ''POINT'' b")
  note na = new_attr_data [OF object_mesh_valid [OF assms(2)] n]
  show ?thesis
    using assms n na
    by (simp add: add_vertex_colors_def two_dimensional_with_columns_iff split: result.splits)
qed

lemma take4_drop:
  "k + 4 \<le> length xs \<Longrightarrow> take 4 (drop k xs) = [xs ! k, xs ! (k + 1), xs ! (k + 2), xs ! (k + 3)]"
  by (auto simp: list_eq_iff_nth_eq less_Suc_eq numeral_eq_Suc)

lemma example_mesh_bpy_eq:
  "example_mesh_bpy =
     example_bpy\<lparr>data_meshes :=
        [\<lparr>mesh_name = ''mesh'', mesh_vertices = [[0, 0, 0], [1, 0, 0], [0, 1, 0]], mesh_edges = [],
          mesh_faces = [[0, 1, 2]], color_attributes = [], mesh_materials = []\<rparr>],
      data_objects := data_objects example_bpy @
        [\<lparr>object_name = ''mesh'', data = MeshData 0, location = (0, 0, 0), rotation_euler = (0, 0, 0)\<rparr>]\<rparr>"
  by (simp add: example_mesh_bpy_def mesh_from_tri_def triangle_vertices_def triangle_faces_def
      example_bpy_def ndim_def meshes_new_def objects_new_def from_pydata_def rows_def row_def)

lemma example_mesh_object: "object_mesh 1 example_mesh_bpy = Inr 0"
  by (simp add: example_mesh_bpy_eq object_mesh_def example_bpy_def)

lemma example_mesh_vertices: "mesh_vertices (data_meshes example_mesh_bpy ! 0) = [[0, 0, 0], [1, 0, 0], [0, 1, 0]]"
  by (simp add: example_mesh_bpy_eq)

text \<open>
  C4, as the code has it. For an object with a mesh of \<open>N\<close> vertices and a color argument
  that converts to an array, the shape assertion fails exactly when the array is not
  two-dimensional with 4 columns: the number of rows is not part of the assertion. An
  array of 4 columns is accepted exactly when it has at most \<open>N\<close> rows (so an \<open>N \<times> 4\<close> array
  is, and so is a shorter one); with more than \<open>N\<close> rows the host's \<^verbatim>\<open>IndexError\<close> is raised
  by the assignment to \<^verbatim>\<open>attr.data[N]\<close>, not an assertion.
\<close>

theorem add_vertex_colors_shape_assertion:
  assumes "asarray cols = Inr cs" and "object_mesh obj b = Inr m"
  shows "((\<exists>b'. add_vertex_colors obj name cols b = Raise AssertionError b') =
            (\<not> two_dimensional_with_columns cs 4))
       \<and> ((\<exists>attr b'. add_vertex_colors obj name cols b = Ok attr b') =
            (two_dimensional_with_columns cs 4
             \<and> shape cs ! 0 \<le> length (mesh_vertices (data_meshes b ! m))))
       \<and> ((\<exists>b'. add_vertex_colors obj name cols b = Raise IndexError b') =
            (two_dimensional_with_columns cs 4
             \<and> length (mesh_vertices (data_meshes b ! m)) < shape cs ! 0))"
proof (cases "shape cs ! 0 \<le> length (mesh_vertices (data_meshes b ! m))")
  case True
  then show ?thesis
    by (simp add: add_vertex_colors_cases [OF assms] assign_colors_fits length_rows)
next
  case False
  then obtain d' where
    "assign_colors 0 (rows cs) (replicate (length (mesh_vertices (data_meshes b ! m))) None) =
       Raise IndexError d'"
    using assign_colors_overflow
      [of 0 "replicate (length (mesh_vertices (data_meshes b ! m))) None" "rows cs"]
    by (auto simp: length_rows)
  with False show ?thesis
    by (simp add: add_vertex_colors_cases [OF assms])
qed

theorem add_vertex_colors_shape_assertion_witness:
  "asarray three_colors = Inr (NDArray [3, 4] [1, 0, 0, 1, 0, 1, 0, 1, 0, 0, 1, 1])
   \<and> object_mesh 1 example_mesh_bpy = Inr 0
   \<and> two_dimensional_with_columns (NDArray [3, 4] [1, 0, 0, 1, 0, 1, 0, 1, 0, 0, 1, 1 :: real]) 4
   \<and> is_Ok (add_vertex_colors 1 ''Col'' three_colors example_mesh_bpy)"
proof -
  have a: "asarray three_colors = Inr (NDArray [3, 4] [1, 0, 0, 1, 0, 1, 0, 1, 0, 0, 1, 1])"
    by (simp add: three_colors_def)
  show ?thesis
    using a example_mesh_object
      add_vertex_colors_shape_assertion [OF a example_mesh_object, of "''Col''"]
    by (auto simp: two_dimensional_with_columns_def example_mesh_vertices)
qed

text \<open>
  C4 as stated fails: on the mesh of three vertices a \<open>2 \<times> 4\<close> color array, whose row count
  differs from the number of vertices, is accepted.
\<close>

theorem add_vertex_colors_row_count_counterexample:
  "length (mesh_vertices (data_meshes example_mesh_bpy ! 0)) = 3
   \<and> object_mesh 1 example_mesh_bpy = Inr 0
   \<and> asarray two_colors = Inr (NDArray [2, 4] [1, 0, 0, 1, 0, 1, 0, 1])
   \<and> is_Ok (add_vertex_colors 1 ''Col'' two_colors example_mesh_bpy)"
proof -
  have a: "asarray two_colors = Inr (NDArray [2, 4] [1, 0, 0, 1, 0, 1, 0, 1])"
    by (simp add: two_colors_def)
  have "is_Ok (add_vertex_colors 1 ''Col'' two_colors example_mesh_bpy)"
    using add_vertex_colors_cases [OF a example_mesh_object, of "''Col''"]
    by (simp add: example_mesh_vertices two_dimensional_with_columns_def assign_colors_fits
        length_rows)
  then show ?thesis
    using a example_mesh_object by (simp add: example_mesh_vertices)
qed

text \<open>
  C6. For an object with a mesh of \<open>N\<close> vertices and a color argument that converts to an
  \<open>N \<times> 4\<close> array, \<^verbatim>\<open>add_vertex_colors\<close> returns a new attribute of the mesh with the given
  name, of type \<^verbatim>\<open>FLOAT_COLOR\<close> on the domain \<^verbatim>\<open>POINT\<close>, with \<open>N\<close> entries, and for every
  \<open>i < N\<close> its entry \<open>i\<close> is row \<open>i\<close> of the array: the elements \<open>4 i, ..., 4 i + 3\<close> of the
  array in row-major order.
\<close>

theorem add_vertex_colors_copies_rows:
  assumes "asarray cols = Inr cs" and "object_mesh obj b = Inr m"
    and "shape cs = [length (mesh_vertices (data_meshes b ! m)), 4]"
    and "length (flat cs) = length (mesh_vertices (data_meshes b ! m)) * 4"
    and "i < length (mesh_vertices (data_meshes b ! m))"
  shows "\<exists>attr b'. add_vertex_colors obj name cols b = Ok (m, attr) b'
           \<and> attr = length (color_attributes (data_meshes b ! m))
           \<and> attr_name (color_attributes (data_meshes b' ! m) ! attr) = name
           \<and> attr_type (color_attributes (data_meshes b' ! m) ! attr) = ''FLOAT_COLOR''
           \<and> attr_domain (color_attributes (data_meshes b' ! m) ! attr) = ''POINT''
           \<and> length (attr_data (color_attributes (data_meshes b' ! m) ! attr))
               = length (mesh_vertices (data_meshes b ! m))
           \<and> attr_data (color_attributes (data_meshes b' ! m) ! attr) ! i = Some (row cs i)
           \<and> row cs i = [flat cs ! (i * 4), flat cs ! (i * 4 + 1), flat cs ! (i * 4 + 2),
                          flat cs ! (i * 4 + 3)]"
proof -
  let ?n = "length (mesh_vertices (data_meshes b ! m))"
  have m: "m < length (data_meshes b)"
    by (rule object_mesh_valid [OF assms(2)])
  have two: "two_dimensional_with_columns cs 4"
    using assms(3) by (simp add: two_dimensional_with_columns_def)
  have len: "length (rows cs) = ?n"
    using assms(3) by (simp add: length_rows)
  have loop: "assign_colors 0 (rows cs) (replicate ?n None) = Ok () (map Some (rows cs))"
    using assign_colors_fits [of 0 "rows cs" "replicate ?n None"] len by simp
  have nth: "map Some (rows cs) ! i = Some (row cs i)"
    using assms(3,5) by (simp add: rows_def)
  have "i * 4 + 4 \<le> length (flat cs)"
    using assms(4,5) by simp
  then have r: "row cs i = [flat cs ! (i * 4), flat cs ! (i * 4 + 1), flat cs ! (i * 4 + 2),
                          flat cs ! (i * 4 + 3)]"
    using assms(3) by (simp add: row_def take4_drop)
  show ?thesis
    using m two loop nth r len
    by (simp add: add_vertex_colors_cases [OF assms(1,2)] set_attr_data_def update_mesh_def
        color_attributes_new_def)
qed

theorem add_vertex_colors_copies_rows_witness:
  "asarray three_colors = Inr (NDArray [3, 4] [1, 0, 0, 1, 0, 1, 0, 1, 0, 0, 1, 1])
   \<and> object_mesh 1 example_mesh_bpy = Inr 0
   \<and> val (add_vertex_colors 1 ''Col'' three_colors example_mesh_bpy) = (0, 0)
   \<and> attr_data (color_attributes
        (data_meshes (st (add_vertex_colors 1 ''Col'' three_colors example_mesh_bpy)) ! 0) ! 0) ! 1
       = Some [0, 1, 0, 1]"
proof -
  have a: "asarray three_colors = Inr (NDArray [3, 4] [1, 0, 0, 1, 0, 1, 0, 1, 0, 0, 1, 1])"
    by (simp add: three_colors_def)
  show ?thesis
    using a example_mesh_object
      add_vertex_colors_copies_rows [OF a example_mesh_object, of 1 "''Col''"]
    by (auto simp: example_mesh_vertices example_mesh_bpy_eq)
qed

section \<open>\<^verbatim>\<open>render_tri\<close>\<close>

subsection \<open>What a call does\<close>

lemma fold_remove1_append: "fold remove1 xs (xs @ ys) = ys"
  by (induction xs) auto

lemma unlink_each_eq:
  "unlink_each cs b = update_scene (\<lambda>s. s\<lparr>children := fold remove1 cs (children s)\<rparr>) b"
  by (induction cs arbitrary: b) (auto simp: children_unlink_def update_scene_def)

lemma clear_the_scene_eq:
  "clear_the_scene b = update_scene (\<lambda>s. s\<lparr>children := []\<rparr>) b"
  using fold_remove1_append [of "children (context_scene b)" "[]"]
  by (simp add: clear_the_scene_def unlink_each_eq update_scene_def)

lemma render_tri_undecorated_Ok:
  "add_a_mesh vertices triangles (colors kw) (clear_the_scene (host w)) = Ok u b \<Longrightarrow>
   render_tri_undecorated ri p vertices triangles kw w =
     Ok () (ops_render_render ri (w\<lparr>host := render_setup p kw
       (add_a_light_source (light_distance kw) (light_energy kw)
         (add_a_camera (camera_rotation kw) (camera_distance kw) (camera_focal_length kw) b))\<rparr>))"
  by (simp add: render_tri_undecorated_def)

lemma render_tri_undecorated_Raise:
  "add_a_mesh vertices triangles (colors kw) (clear_the_scene (host w)) = Raise e b \<Longrightarrow>
   render_tri_undecorated ri p vertices triangles kw w = Raise e (w\<lparr>host := b\<rparr>)"
  by (simp add: render_tri_undecorated_def)

lemma render_setup_settings:
  "use_denoising (render_setup p kw b) = False"
  "engine (render (context_scene (render_setup p kw b))) = ''CYCLES''"
  "render_resolution_x (render (context_scene (render_setup p kw b))) = resolution_x kw"
  "render_resolution_y (render (context_scene (render_setup p kw b))) = resolution_y kw"
  "filepath (render (context_scene (render_setup p kw b))) = p"
  by (simp_all add: render_setup_def update_render_def update_scene_def)

lemma render_setup_frame:
  "data_objects (render_setup p kw b) = data_objects b"
  "data_meshes (render_setup p kw b) = data_meshes b"
  "data_materials (render_setup p kw b) = data_materials b"
  "objects (context_scene (render_setup p kw b)) = objects (context_scene b)"
  "children (context_scene (render_setup p kw b)) = children (context_scene b)"
  "scene_camera (context_scene (render_setup p kw b)) = scene_camera (context_scene b)"
  by (simp_all add: render_setup_def update_render_def update_scene_def)

lemma ops_render_render_sel:
  "host (ops_render_render ri w) = host w"
  "renders (ops_render_render ri w) = renders w @ [host w]"
  "stream (ops_render_render ri w) = stream w"
  "files (ops_render_render ri w) (filepath (render (context_scene (host w)))) = Some (ri (host w))"
  by (simp_all add: ops_render_render_def)

lemma cleanup_sel:
  "host (cleanup d w) = host w" "renders (cleanup d w) = renders w" "stream (cleanup d w) = stream w"
  by (simp_all add: cleanup_def)

lemma render_tri_Filename:
  "render_tri ri tmpdir (Filename p) vertices triangles kw w =
     render_tri_undecorated ri p vertices triangles kw w"
  by (simp add: render_tri_def ensure_filename_def)

lemma render_tri_Stream_Ok:
  "render_tri_undecorated ri (tmpdir @ ''/'' @ ''out.png'') vertices triangles kw w = Ok u w1 \<Longrightarrow>
   files w1 (tmpdir @ ''/'' @ ''out.png'') = Some src \<Longrightarrow>
   render_tri ri tmpdir Stream vertices triangles kw w =
     Ok () (cleanup tmpdir (w1\<lparr>stream := stream w1 @ src\<rparr>))"
  by (simp add: render_tri_def ensure_filename_def)

lemma render_tri_Stream_Raise:
  "render_tri_undecorated ri (tmpdir @ ''/'' @ ''out.png'') vertices triangles kw w = Raise e w1 \<Longrightarrow>
   render_tri ri tmpdir Stream vertices triangles kw w = Raise e (cleanup tmpdir w1)"
  by (simp add: render_tri_def ensure_filename_def)

text \<open>What a call does, by the outcome of the mesh part and by the kind of output.\<close>

lemma render_tri_outcome:
  "render_tri ri tmpdir out vertices triangles kw w =
     (case add_a_mesh vertices triangles (colors kw) (clear_the_scene (host w)) of
        Raise e b \<Rightarrow>
          Raise e (case out of Filename p \<Rightarrow> w\<lparr>host := b\<rparr> | Stream \<Rightarrow> cleanup tmpdir (w\<lparr>host := b\<rparr>))
      | Ok u b \<Rightarrow>
          (case out of
             Filename p \<Rightarrow>
               Ok () (ops_render_render ri (w\<lparr>host := render_setup p kw
                 (add_a_light_source (light_distance kw) (light_energy kw)
                   (add_a_camera (camera_rotation kw) (camera_distance kw) (camera_focal_length kw) b))\<rparr>))
           | Stream \<Rightarrow>
               Ok () (cleanup tmpdir
                 ((ops_render_render ri (w\<lparr>host := render_setup (tmpdir @ ''/'' @ ''out.png'') kw
                   (add_a_light_source (light_distance kw) (light_energy kw)
                     (add_a_camera (camera_rotation kw) (camera_distance kw) (camera_focal_length kw) b))\<rparr>))
                  \<lparr>stream := stream w @ ri (render_setup (tmpdir @ ''/'' @ ''out.png'') kw
                   (add_a_light_source (light_distance kw) (light_energy kw)
                     (add_a_camera (camera_rotation kw) (camera_distance kw) (camera_focal_length kw) b)))\<rparr>))))"
proof (cases "add_a_mesh vertices triangles (colors kw) (clear_the_scene (host w))")
  case (Ok u b)
  show ?thesis
  proof (cases out)
    case (Filename p)
    then show ?thesis
      using render_tri_undecorated_Ok [OF Ok] by (simp add: Ok render_tri_Filename)
  next
    case Stream
    let ?p = "tmpdir @ ''/'' @ ''out.png''"
    note r = render_tri_undecorated_Ok [OF Ok, of ri ?p]
    show ?thesis
      using Stream render_tri_Stream_Ok [OF r, of "ri (render_setup ?p kw
                   (add_a_light_source (light_distance kw) (light_energy kw)
                     (add_a_camera (camera_rotation kw) (camera_distance kw) (camera_focal_length kw) b)))"]
      by (simp add: Ok ops_render_render_def render_setup_settings)
  qed
next
  case (Raise e b)
  show ?thesis
    using render_tri_undecorated_Raise [OF Raise] render_tri_Stream_Raise [of ri tmpdir vertices triangles kw w e "w\<lparr>host := b\<rparr>"]
    by (cases out) (simp_all add: Raise render_tri_Filename)
qed

lemma is_Ok_D: "is_Ok r \<Longrightarrow> r = Ok (val r) (st r)"
  by (cases r) simp_all

lemma render_tri_Ok_host:
  assumes "render_tri ri tmpdir out vertices triangles kw w = Ok u w'"
  shows "\<exists>b. add_a_mesh vertices triangles (colors kw) (clear_the_scene (host w)) = Ok () b
           \<and> host w' = render_setup (case out of Filename p \<Rightarrow> p | Stream \<Rightarrow> tmpdir @ ''/'' @ ''out.png'') kw
               (add_a_light_source (light_distance kw) (light_energy kw)
                 (add_a_camera (camera_rotation kw) (camera_distance kw) (camera_focal_length kw) b))
           \<and> renders w' = renders w @ [host w']"
  using assms
  by (auto simp: render_tri_outcome ops_render_render_sel cleanup_sel
      split: result.splits output_arg.splits)

subsection \<open>What each part leaves unchanged\<close>

lemma mesh_from_tri_Ok:
  assumes "asarray vertices = Inr vs" and "asarray triangles = Inr ts"
    and "two_dimensional_with_columns vs 3" and "two_dimensional_with_columns ts 3"
  shows "mesh_from_tri name vertices triangles b =
     Ok (length (data_objects b))
        (b\<lparr>data_meshes := data_meshes b @
             [\<lparr>mesh_name = name, mesh_vertices = rows vs, mesh_edges = [], mesh_faces = rows ts,
               color_attributes = [], mesh_materials = []\<rparr>],
           data_objects := data_objects b @
             [\<lparr>object_name = name, data = MeshData (length (data_meshes b)),
               location = (0, 0, 0), rotation_euler = (0, 0, 0)\<rparr>]\<rparr>)"
  using assms
  by (auto simp: mesh_from_tri_def two_dimensional_with_columns_iff meshes_new_def objects_new_def
      from_pydata_def split: if_splits)

lemma mesh_from_tri_frame:
  "mesh_from_tri name vertices triangles b = Ok obj b1 \<Longrightarrow>
   obj = length (data_objects b) \<and> length (data_objects b1) = Suc (length (data_objects b))
   \<and> context_scene b1 = context_scene b \<and> data_materials b1 = data_materials b"
  by (auto simp: mesh_from_tri_def meshes_new_def objects_new_def from_pydata_def
      split: sum.splits if_splits)

lemma add_vertex_colors_frame:
  "data_objects (st (add_vertex_colors obj name cols b)) = data_objects b
   \<and> context_scene (st (add_vertex_colors obj name cols b)) = context_scene b"
  by (auto simp: add_vertex_colors_def color_attributes_new_def set_attr_data_def update_mesh_def
      split: sum.splits result.splits prod.splits)

lemma add_vertex_colors_and_material_frame:
  "data_objects (st (add_vertex_colors_and_material obj name cols b)) = data_objects b
   \<and> context_scene (st (add_vertex_colors_and_material obj name cols b)) = context_scene b"
proof (cases "add_vertex_colors obj name cols b")
  case (Ok r b1)
  then show ?thesis
    using add_vertex_colors_frame [of obj name cols b]
    by (simp add: add_vertex_colors_and_material_def materials_new_def set_use_nodes_def
        update_material_def update_mesh_def Let_def split: option.splits)
next
  case (Raise e b1)
  then show ?thesis
    using add_vertex_colors_frame [of obj name cols b]
    by (simp add: add_vertex_colors_and_material_def)
qed

lemma add_a_mesh_frame:
  assumes "add_a_mesh vertices triangles cols b = Ok u b'"
  shows "objects (context_scene b') = objects (context_scene b) @ [length (data_objects b)]
   \<and> length (data_objects b') = Suc (length (data_objects b))
   \<and> children (context_scene b') = children (context_scene b)"
proof -
  obtain obj b1 where m: "mesh_from_tri ''mesh'' vertices triangles b = Ok obj b1"
    using assms by (auto simp: add_a_mesh_def split: result.splits)
  note f = mesh_from_tri_frame [OF m]
  show ?thesis
  proof (cases cols)
    case None
    then show ?thesis
      using assms f by (auto simp: add_a_mesh_def m objects_link_def update_scene_def)
  next
    case (Some c)
    then show ?thesis
      using assms f add_vertex_colors_and_material_frame [of obj "''Col''" c b1]
      by (auto simp: add_a_mesh_def m objects_link_def update_scene_def
          split: sum.splits if_splits result.splits)
  qed
qed

lemma add_a_camera_frame:
  "objects (context_scene (add_a_camera r d f b)) = objects (context_scene b) @ [length (data_objects b)]"
  "length (data_objects (add_a_camera r d f b)) = Suc (length (data_objects b))"
  "children (context_scene (add_a_camera r d f b)) = children (context_scene b)"
  "scene_camera (context_scene (add_a_camera r d f b)) = Some (length (data_objects b))"
  "location (data_objects (add_a_camera r d f b) ! length (data_objects b))
     = matmul_vec (to_matrix r) (0, 0, d)"
  by (simp_all add: add_a_camera_def cameras_new_def objects_new_def update_object_def
      objects_link_def update_scene_def Let_def)

lemma add_a_light_source_frame:
  "objects (context_scene (add_a_light_source d e b)) = objects (context_scene b) @ [length (data_objects b)]"
  "length (data_objects (add_a_light_source d e b)) = Suc (length (data_objects b))"
  "children (context_scene (add_a_light_source d e b)) = children (context_scene b)"
  "scene_camera (context_scene (add_a_light_source d e b)) = scene_camera (context_scene b)"
  "i < length (data_objects b) \<Longrightarrow> data_objects (add_a_light_source d e b) ! i = data_objects b ! i"
  by (simp_all add: add_a_light_source_def lights_new_def objects_new_def update_object_def
      objects_link_def update_scene_def Let_def nth_append)

lemma clear_the_scene_frame:
  "objects (context_scene (clear_the_scene b)) = objects (context_scene b)"
  "children (context_scene (clear_the_scene b)) = []"
  "data_objects (clear_the_scene b) = data_objects b"
  by (simp_all add: clear_the_scene_eq update_scene_def)

lemma objects_link_data:
  "data_materials (objects_link obj b) = data_materials b"
  "data_meshes (objects_link obj b) = data_meshes b"
  "data_objects (objects_link obj b) = data_objects b"
  by (simp_all add: objects_link_def update_scene_def)

lemma add_a_camera_data:
  "data_materials (add_a_camera r d f b) = data_materials b"
  "data_meshes (add_a_camera r d f b) = data_meshes b"
  by (simp_all add: add_a_camera_def cameras_new_def objects_new_def update_object_def
      objects_link_def update_scene_def Let_def)

lemma add_a_light_source_data:
  "data_materials (add_a_light_source d e b) = data_materials b"
  "data_meshes (add_a_light_source d e b) = data_meshes b"
  by (simp_all add: add_a_light_source_def lights_new_def objects_new_def update_object_def
      objects_link_def update_scene_def Let_def)

lemma render_tri_links:
  assumes "render_tri ri tmpdir out vertices triangles kw w = Ok u w'"
  shows "objects (context_scene (host w')) =
           objects (context_scene (host w)) @
             [length (data_objects (host w)), Suc (length (data_objects (host w))),
              Suc (Suc (length (data_objects (host w))))]
       \<and> length (data_objects (host w')) = Suc (Suc (Suc (length (data_objects (host w)))))
       \<and> children (context_scene (host w')) = []"
proof -
  obtain b where b: "add_a_mesh vertices triangles (colors kw) (clear_the_scene (host w)) = Ok () b"
    and h: "host w' = render_setup (case out of Filename p \<Rightarrow> p | Stream \<Rightarrow> tmpdir @ ''/'' @ ''out.png'') kw
               (add_a_light_source (light_distance kw) (light_energy kw)
                 (add_a_camera (camera_rotation kw) (camera_distance kw) (camera_focal_length kw) b))"
    using render_tri_Ok_host [OF assms] by auto
  show ?thesis
    using add_a_mesh_frame [OF b]
    by (simp add: h render_setup_frame add_a_light_source_frame add_a_camera_frame
        clear_the_scene_frame)
qed

subsection \<open>Calls on the example inputs\<close>

lemma add_a_mesh_no_colors:
  assumes "asarray vertices = Inr vs" and "asarray triangles = Inr ts"
    and "two_dimensional_with_columns vs 3" and "two_dimensional_with_columns ts 3"
    and "cols = None \<or> cols = Some (Rows [])"
  shows "add_a_mesh vertices triangles cols b =
     Ok () (objects_link (length (data_objects b)) (st (mesh_from_tri ''mesh'' vertices triangles b)))"
  using assms(5) mesh_from_tri_Ok [OF assms(1-4), of "''mesh''" b]
  by (auto simp: add_a_mesh_def)

lemma add_a_mesh_ambiguous:
  assumes "asarray vertices = Inr vs" and "asarray triangles = Inr ts"
    and "two_dimensional_with_columns vs 3" and "two_dimensional_with_columns ts 3"
    and "1 < size_nd a"
  shows "add_a_mesh vertices triangles (Some (Arr a)) b =
     Raise ValueError (st (mesh_from_tri ''mesh'' vertices triangles b))"
  using assms(5) mesh_from_tri_Ok [OF assms(1-4), of "''mesh''" b]
  by (auto simp: add_a_mesh_def)

lemma triangle_arrays:
  "asarray triangle_vertices = Inr (NDArray [3, 3] [0, 0, 0, 1, 0, 0, 0, 1, 0])"
  "asarray triangle_faces = Inr (NDArray [1, 3] [0, 1, 2])"
  "two_dimensional_with_columns (NDArray [3, 3] [0, 0, 0, 1, 0, 0, 0, 1, 0 :: real]) 3"
  "two_dimensional_with_columns (NDArray [1, 3] [0, 1, 2 :: int]) 3"
  by (simp_all add: triangle_vertices_def triangle_faces_def two_dimensional_with_columns_def)

lemma triangle_render_Ok:
  "colors kw = None \<Longrightarrow>
   is_Ok (render_tri ri tmpdir out triangle_vertices triangle_faces kw w)"
  using add_a_mesh_no_colors [OF triangle_arrays, of None "clear_the_scene (host w)"]
  by (simp add: render_tri_outcome split: output_arg.splits)

subsection \<open>The render settings at the invocation of the render operator\<close>

text \<open>
  C10. Whatever the arguments, a call of \<^verbatim>\<open>render_tri\<close> that returns has invoked the render
  operator once, with \<^verbatim>\<open>use_denoising\<close> of the view layer switched off, and leaves it off;
  a call that raises has not rendered.
\<close>

theorem render_tri_denoising_off:
  "case render_tri ri tmpdir out vertices triangles kw w of
     Ok u w' \<Rightarrow> (\<exists>b. renders w' = renders w @ [b] \<and> use_denoising b = False)
                \<and> use_denoising (host w') = False
   | Raise e w' \<Rightarrow> renders w' = renders w"
  by (simp add: render_tri_outcome ops_render_render_sel cleanup_sel render_setup_settings
      split: result.splits output_arg.splits)

theorem render_tri_denoising_off_witness:
  "use_denoising (host example_world)
   \<and> is_Ok (render_tri object_count_image ''/tmp/tmpdir'' Stream
        triangle_vertices triangle_faces default_kwargs example_world)
   \<and> map use_denoising (renders (st (render_tri object_count_image ''/tmp/tmpdir'' Stream
        triangle_vertices triangle_faces default_kwargs example_world))) = [False]"
  using render_tri_denoising_off [where ri = object_count_image
      and tmpdir = "''/tmp/tmpdir''" and out = Stream and vertices = triangle_vertices
      and triangles = triangle_faces and kw = default_kwargs and w = example_world]
    triangle_render_Ok [where kw = default_kwargs and ri = object_count_image
      and tmpdir = "''/tmp/tmpdir''" and out = Stream and w = example_world]
  by (auto simp: default_kwargs_def example_world_def example_bpy_def split: result.splits)

text \<open>
  C7. A call of \<^verbatim>\<open>render_tri\<close> with a path as its output that returns has invoked the render
  operator once, with \<^verbatim>\<open>scene.render.filepath\<close> equal to that path and the resolution equal
  to \<^verbatim>\<open>resolution_x\<close> and \<^verbatim>\<open>resolution_y\<close>, and the image is in the file at that path; a
  call that raises has not rendered. (With a stream as its output, the path is that of the
  temporary file.)
\<close>

theorem render_tri_filepath_and_resolution:
  "case render_tri ri tmpdir (Filename p) vertices triangles kw w of
     Ok u w' \<Rightarrow>
       (\<exists>b. renders w' = renders w @ [b]
          \<and> filepath (render (context_scene b)) = p
          \<and> render_resolution_x (render (context_scene b)) = resolution_x kw
          \<and> render_resolution_y (render (context_scene b)) = resolution_y kw
          \<and> files w' p = Some (ri b))
   | Raise e w' \<Rightarrow> renders w' = renders w"
  by (simp add: render_tri_outcome ops_render_render_def render_setup_settings
      split: result.splits)

theorem render_tri_filepath_and_resolution_witness:
  "is_Ok (render_tri object_count_image ''/tmp/tmpdir'' (Filename ''out.png'')
      triangle_vertices triangle_faces (default_kwargs\<lparr>resolution_x := 320, resolution_y := 200\<rparr>) example_world)
   \<and> map (\<lambda>b. (filepath (render (context_scene b)), render_resolution_x (render (context_scene b)),
               render_resolution_y (render (context_scene b))))
        (renders (st (render_tri object_count_image ''/tmp/tmpdir'' (Filename ''out.png'')
           triangle_vertices triangle_faces (default_kwargs\<lparr>resolution_x := 320, resolution_y := 200\<rparr>) example_world)))
      = [(''out.png'', 320, 200)]"
  using render_tri_filepath_and_resolution [where ri = object_count_image
      and tmpdir = "''/tmp/tmpdir''" and p = "''out.png''" and vertices = triangle_vertices
      and triangles = triangle_faces
      and kw = "default_kwargs\<lparr>resolution_x := 320, resolution_y := 200\<rparr>"
      and w = example_world]
    triangle_render_Ok [where kw = "default_kwargs\<lparr>resolution_x := 320, resolution_y := 200\<rparr>"
      and ri = object_count_image and tmpdir = "''/tmp/tmpdir''" and out = "Filename ''out.png''"
      and w = example_world]
  by (auto simp: default_kwargs_def example_world_def split: result.splits)

text \<open>
  C2, on the code. The call asks for the engine \<^verbatim>\<open>BLENDER_EEVEE\<close>; it returns, and the one
  invocation of the render operator had \<^verbatim>\<open>scene.render.engine\<close> set to \<^verbatim>\<open>CYCLES\<close>: the
  \<^verbatim>\<open>renderer\<close> argument is not used.
\<close>

theorem render_tri_ignores_renderer:
  "renderer eevee_kwargs = ''BLENDER_EEVEE''
   \<and> is_Ok (render_tri object_count_image ''/tmp/tmpdir'' (Filename ''out.png'')
        triangle_vertices triangle_faces eevee_kwargs example_world)
   \<and> map (\<lambda>b. engine (render (context_scene b)))
        (renders (st (render_tri object_count_image ''/tmp/tmpdir'' (Filename ''out.png'')
           triangle_vertices triangle_faces eevee_kwargs example_world))) = [''CYCLES'']"
proof -
  let ?r = "render_tri object_count_image ''/tmp/tmpdir'' (Filename ''out.png'')
        triangle_vertices triangle_faces eevee_kwargs example_world"
  have c: "colors eevee_kwargs = None"
    by (simp add: eevee_kwargs_def default_kwargs_def)
  have n: "renderer eevee_kwargs = ''BLENDER_EEVEE''"
    by (simp add: eevee_kwargs_def)
  have ok: "is_Ok ?r"
    by (rule triangle_render_Ok [OF c])
  note r = is_Ok_D [OF ok]
  obtain b where h: "host (st ?r) = render_setup ''out.png'' eevee_kwargs b"
    and l: "renders (st ?r) = renders example_world @ [host (st ?r)]"
    using render_tri_Ok_host [OF r] by auto
  have e: "engine (render (context_scene (host (st ?r)))) = ''CYCLES''"
    by (simp add: h render_setup_settings)
  have "renders example_world = []"
    by (simp add: example_world_def)
  then show ?thesis
    using ok n e l by simp
qed

subsection \<open>Clearing the scene\<close>

text \<open>
  C5, on the code. After a first call the root collection links the three objects that
  call created. The clearing step of a second call unlinks the child collections only:
  the three objects are still linked after it, the second call adds three more, and its
  image is of a scene with six objects.
\<close>

theorem render_tri_keeps_earlier_objects:
  "is_Ok first_call
   \<and> objects (context_scene (host (st first_call))) = [1, 2, 3]
   \<and> objects (context_scene (clear_the_scene (host (st first_call)))) = [1, 2, 3]
   \<and> is_Ok second_call
   \<and> objects (context_scene (host (st second_call))) = [1, 2, 3, 4, 5, 6]
   \<and> files (st second_call) ''second.png'' = Some [6]"
proof -
  have c: "colors default_kwargs = None"
    by (simp add: default_kwargs_def)
  have ok1: "is_Ok first_call"
    unfolding first_call_def by (rule triangle_render_Ok [OF c])
  have ok2: "is_Ok second_call"
    unfolding second_call_def by (rule triangle_render_Ok [OF c])
  note r1 = is_Ok_D [OF ok1, unfolded first_call_def, folded first_call_def]
  have l1: "objects (context_scene (host (st first_call))) = [1, 2, 3]
      \<and> length (data_objects (host (st first_call))) = 4"
    using render_tri_links [OF is_Ok_D [OF ok1 [unfolded first_call_def]]]
    by (simp add: first_call_def example_world_def example_bpy_def)
  have l2: "objects (context_scene (host (st second_call))) = [1, 2, 3, 4, 5, 6]"
    using render_tri_links [OF is_Ok_D [OF ok2 [unfolded second_call_def]]] l1
    by (simp add: second_call_def)
  have f: "files (st second_call) ''second.png'' = Some (object_count_image (host (st second_call)))"
    using ok2
    by (auto simp: second_call_def render_tri_outcome ops_render_render_def render_setup_settings
        split: result.splits)
  show ?thesis
    using ok1 ok2 l1 l2 f by (simp add: clear_the_scene_frame object_count_image_def)
qed

subsection \<open>The truth value of \<^verbatim>\<open>colors\<close>\<close>

lemma mesh_from_tri_no_colors:
  assumes "asarray vertices = Inr vs" and "asarray triangles = Inr ts"
    and "two_dimensional_with_columns vs 3" and "two_dimensional_with_columns ts 3"
  shows "no_colors_attached b (st (mesh_from_tri ''mesh'' vertices triangles b))"
  by (simp add: mesh_from_tri_Ok [OF assms] no_colors_attached_def)

lemma no_colors_attached_frame:
  "data_materials b'' = data_materials b' \<Longrightarrow> data_meshes b'' = data_meshes b' \<Longrightarrow>
   no_colors_attached b b' \<Longrightarrow> no_colors_attached b b''"
  by (simp add: no_colors_attached_def)

text \<open>
  C8. With vertex and triangle arguments that pass the shape check of \<^verbatim>\<open>mesh_from_tri\<close>:
  a call whose \<^verbatim>\<open>colors\<close> is a numpy array of more than one element raises \<^verbatim>\<open>ValueError\<close>,
  with the mesh created but no color attribute and no material attached, and nothing
  rendered; a call whose \<^verbatim>\<open>colors\<close> is \<^verbatim>\<open>None\<close> or the empty list returns, having rendered
  a mesh with no color attribute and no material.
\<close>

theorem render_tri_colors_truth_value:
  assumes "asarray vertices = Inr vs" and "asarray triangles = Inr ts"
    and "two_dimensional_with_columns vs 3" and "two_dimensional_with_columns ts 3"
  shows "(1 < size_nd a \<longrightarrow>
           (\<exists>w'. render_tri ri tmpdir out vertices triangles (kw\<lparr>colors := Some (Arr a)\<rparr>) w
                    = Raise ValueError w'
                  \<and> no_colors_attached (host w) (host w') \<and> renders w' = renders w))
       \<and> (\<exists>w'. render_tri ri tmpdir out vertices triangles (kw\<lparr>colors := None\<rparr>) w = Ok () w'
                  \<and> no_colors_attached (host w) (host w') \<and> renders w' = renders w @ [host w'])
       \<and> (\<exists>w'. render_tri ri tmpdir out vertices triangles (kw\<lparr>colors := Some (Rows [])\<rparr>) w = Ok () w'
                  \<and> no_colors_attached (host w) (host w') \<and> renders w' = renders w @ [host w'])"
proof -
  let ?b = "clear_the_scene (host w)"
  have nc: "no_colors_attached (host w) (st (mesh_from_tri ''mesh'' vertices triangles ?b))"
    using mesh_from_tri_no_colors [OF assms, of ?b]
    by (simp add: no_colors_attached_def clear_the_scene_eq update_scene_def)
  have 1: "1 < size_nd a \<longrightarrow>
           (\<exists>w'. render_tri ri tmpdir out vertices triangles (kw\<lparr>colors := Some (Arr a)\<rparr>) w
                    = Raise ValueError w'
                  \<and> no_colors_attached (host w) (host w') \<and> renders w' = renders w)"
    using nc add_a_mesh_ambiguous [OF assms, of a ?b]
    by (auto simp: render_tri_outcome cleanup_sel split: output_arg.splits)
  have ok: "\<exists>w'. render_tri ri tmpdir out vertices triangles (kw\<lparr>colors := c\<rparr>) w = Ok () w'
                  \<and> no_colors_attached (host w) (host w') \<and> renders w' = renders w @ [host w']"
    if "c = None \<or> c = Some (Rows [])" for c
    using add_a_mesh_no_colors [OF assms that, of ?b]
      no_colors_attached_frame [OF _ _ nc]
    by (simp add: render_tri_outcome cleanup_sel ops_render_render_sel render_setup_frame
        add_a_light_source_data add_a_camera_data objects_link_data split: output_arg.splits)
  show ?thesis
    using 1 ok [of None] ok [of "Some (Rows [])"] by simp
qed

theorem render_tri_colors_truth_value_witness:
  "1 < size_nd twelve_colors
   \<and> \<not> is_Ok (render_tri object_count_image ''/tmp/tmpdir'' (Filename ''out.png'')
        triangle_vertices triangle_faces (default_kwargs\<lparr>colors := Some (Arr twelve_colors)\<rparr>) example_world)
   \<and> err (render_tri object_count_image ''/tmp/tmpdir'' (Filename ''out.png'')
        triangle_vertices triangle_faces (default_kwargs\<lparr>colors := Some (Arr twelve_colors)\<rparr>) example_world)
       = ValueError
   \<and> is_Ok (render_tri object_count_image ''/tmp/tmpdir'' (Filename ''out.png'')
        triangle_vertices triangle_faces (default_kwargs\<lparr>colors := None\<rparr>) example_world)
   \<and> is_Ok (render_tri object_count_image ''/tmp/tmpdir'' (Filename ''out.png'')
        triangle_vertices triangle_faces (default_kwargs\<lparr>colors := Some (Rows [])\<rparr>) example_world)"
proof -
  have s: "1 < size_nd twelve_colors"
    by (simp add: twelve_colors_def size_nd_def)
  show ?thesis
    using s render_tri_colors_truth_value [OF triangle_arrays, of twelve_colors object_count_image
        "''/tmp/tmpdir''" "Filename ''out.png''" default_kwargs example_world]
    by auto
qed

subsection \<open>The position of the camera\<close>

lemma rotation_preserves_norm:
  "euclidean_norm (matmul_vec (to_matrix r) (0, 0, d)) = \<bar>d\<bar>"
proof -
  obtain x y z where r: "r = (x, y, z)" by (cases r)
  have cx: "sin x * sin x + cos x * cos x = 1"
    and cy: "sin y * sin y + cos y * cos y = 1"
    and cz: "sin z * sin z + cos z * cos z = 1"
    using sin_cos_squared_add [of x] sin_cos_squared_add [of y] sin_cos_squared_add [of z]
    by (simp_all add: power2_eq_square)
  have "(sin y * (cos x * cos z) + sin x * sin z) * (sin y * (cos x * cos z) + sin x * sin z)
         + (sin y * (cos x * sin z) - sin x * cos z) * (sin y * (cos x * sin z) - sin x * cos z)
         + (cos y * cos x) * (cos y * cos x)
         = sin x * sin x * (sin z * sin z + cos z * cos z)
           + cos x * cos x * (sin y * sin y * (sin z * sin z + cos z * cos z) + cos y * cos y)"
    by (simp only: algebra_simps)
  also have "\<dots> = 1"
    by (simp only: cz cy cx mult_1_right)
  finally have one:
    "(sin y * (cos x * cos z) + sin x * sin z) * (sin y * (cos x * cos z) + sin x * sin z)
         + (sin y * (cos x * sin z) - sin x * cos z) * (sin y * (cos x * sin z) - sin x * cos z)
         + (cos y * cos x) * (cos y * cos x) = 1" .
  have "(sin y * (cos x * cos z) + sin x * sin z) * d * ((sin y * (cos x * cos z) + sin x * sin z) * d)
         + (sin y * (cos x * sin z) - sin x * cos z) * d * ((sin y * (cos x * sin z) - sin x * cos z) * d)
         + cos y * cos x * d * (cos y * cos x * d)
      = d * d * ((sin y * (cos x * cos z) + sin x * sin z) * (sin y * (cos x * cos z) + sin x * sin z)
         + (sin y * (cos x * sin z) - sin x * cos z) * (sin y * (cos x * sin z) - sin x * cos z)
         + (cos y * cos x) * (cos y * cos x))"
    by (simp add: algebra_simps)
  also have "\<dots> = d * d"
    by (simp only: one mult_1_right)
  finally show ?thesis
    by (simp add: r to_matrix_def matmul_vec_def euclidean_norm_def)
qed

lemma render_tri_camera_location:
  assumes "render_tri ri tmpdir out vertices triangles kw w = Ok u w'"
  shows "scene_camera_location (host w') =
           Some (matmul_vec (to_matrix (camera_rotation kw)) (0, 0, camera_distance kw))"
proof -
  obtain b where
    h: "host w' = render_setup (case out of Filename p \<Rightarrow> p | Stream \<Rightarrow> tmpdir @ ''/'' @ ''out.png'') kw
               (add_a_light_source (light_distance kw) (light_energy kw)
                 (add_a_camera (camera_rotation kw) (camera_distance kw) (camera_focal_length kw) b))"
    using render_tri_Ok_host [OF assms] by auto
  show ?thesis
    by (simp add: h scene_camera_location_def render_setup_frame add_a_light_source_frame
        add_a_camera_frame)
qed

text \<open>
  C9, as the code has it (in real arithmetic). After a call of \<^verbatim>\<open>render_tri\<close> that returns,
  the scene's camera is at the rotation matrix of \<^verbatim>\<open>camera_rotation\<close> applied to
  \<open>(0, 0, camera_distance)\<close>, and its Euclidean distance from the origin is the absolute
  value of \<^verbatim>\<open>camera_distance\<close>.
\<close>

theorem render_tri_camera_distance:
  assumes "render_tri ri tmpdir out vertices triangles kw w = Ok u w'"
  shows "scene_camera_location (host w') =
           Some (matmul_vec (to_matrix (camera_rotation kw)) (0, 0, camera_distance kw))
       \<and> map_option euclidean_norm (scene_camera_location (host w')) = Some \<bar>camera_distance kw\<bar>"
  by (simp add: render_tri_camera_location [OF assms] rotation_preserves_norm)

theorem render_tri_camera_distance_witness:
  "is_Ok (render_tri object_count_image ''/tmp/tmpdir'' (Filename ''out.png'')
      triangle_vertices triangle_faces default_kwargs example_world)
   \<and> camera_distance default_kwargs = 5
   \<and> map_option euclidean_norm (scene_camera_location (host (st
        (render_tri object_count_image ''/tmp/tmpdir'' (Filename ''out.png'')
           triangle_vertices triangle_faces default_kwargs example_world)))) = Some 5"
proof -
  have c: "colors default_kwargs = None" and d: "camera_distance default_kwargs = 5"
    by (simp_all add: default_kwargs_def)
  have ok: "is_Ok (render_tri object_count_image ''/tmp/tmpdir'' (Filename ''out.png'')
      triangle_vertices triangle_faces default_kwargs example_world)"
    by (rule triangle_render_Ok [OF c])
  show ?thesis
    using ok d render_tri_camera_distance [OF is_Ok_D [OF ok], THEN conjunct2] by simp
qed

text \<open>
  C9 as stated fails for a negative distance: with no rotation and \<^verbatim>\<open>camera_distance = -1\<close>
  the camera is at \<open>(0, 0, -1)\<close>, at distance \<open>1\<close> from the origin.
\<close>

theorem render_tri_camera_distance_counterexample:
  "camera_distance behind_kwargs = - 1
   \<and> is_Ok (render_tri object_count_image ''/tmp/tmpdir'' (Filename ''out.png'')
        triangle_vertices triangle_faces behind_kwargs example_world)
   \<and> scene_camera_location (host (st
        (render_tri object_count_image ''/tmp/tmpdir'' (Filename ''out.png'')
           triangle_vertices triangle_faces behind_kwargs example_world))) = Some (0, 0, - 1)
   \<and> map_option euclidean_norm (scene_camera_location (host (st
        (render_tri object_count_image ''/tmp/tmpdir'' (Filename ''out.png'')
           triangle_vertices triangle_faces behind_kwargs example_world)))) = Some 1"
proof -
  have c: "colors behind_kwargs = None" and d: "camera_distance behind_kwargs = - 1"
    and r: "camera_rotation behind_kwargs = (0, 0, 0)"
    by (simp_all add: behind_kwargs_def default_kwargs_def)
  have ok: "is_Ok (render_tri object_count_image ''/tmp/tmpdir'' (Filename ''out.png'')
      triangle_vertices triangle_faces behind_kwargs example_world)"
    by (rule triangle_render_Ok [OF c])
  show ?thesis
    using ok d render_tri_camera_location [OF is_Ok_D [OF ok]]
    by (simp add: r to_matrix_def matmul_vec_def euclidean_norm_def)
qed

subsection \<open>A stream in place of a path\<close>

lemma render_setup_filepath:
  "render_setup p kw b = update_render (\<lambda>r. r\<lparr>filepath := p\<rparr>) (render_setup q kw b)"
  by (simp add: render_setup_def update_render_def update_scene_def)

text \<open>
  C1. Let the image the host renders not depend on \<^verbatim>\<open>scene.render.filepath\<close>. Then, from the
  same state and with the same arguments, a call of \<^verbatim>\<open>render_tri\<close> with a stream and a call
  with a path either raise the same exception, or both return, and the bytes the first
  has appended to the stream are the contents of the file the second has left at the path.
\<close>

theorem render_tri_stream_same_bytes:
  assumes "\<And>b q. ri (update_render (\<lambda>r. r\<lparr>filepath := q\<rparr>) b) = ri b"
  shows "(\<exists>e w1 w2. render_tri ri tmpdir Stream vertices triangles kw w = Raise e w1
            \<and> render_tri ri tmpdir (Filename p) vertices triangles kw w = Raise e w2)
       \<or> (\<exists>bs w1 w2. render_tri ri tmpdir Stream vertices triangles kw w = Ok () w1
            \<and> render_tri ri tmpdir (Filename p) vertices triangles kw w = Ok () w2
            \<and> stream w1 = stream w @ bs \<and> files w2 p = Some bs)"
proof (cases "add_a_mesh vertices triangles (colors kw) (clear_the_scene (host w))")
  case (Ok u b)
  let ?b = "add_a_light_source (light_distance kw) (light_energy kw)
              (add_a_camera (camera_rotation kw) (camera_distance kw) (camera_focal_length kw) b)"
  have "ri (render_setup (tmpdir @ ''/'' @ ''out.png'') kw ?b) = ri (render_setup p kw ?b)"
    using assms [of "tmpdir @ ''/'' @ ''out.png''" "render_setup p kw ?b"]
      render_setup_filepath [of "tmpdir @ ''/'' @ ''out.png''" kw ?b p]
    by simp
  then show ?thesis
    by (simp add: render_tri_outcome Ok cleanup_sel ops_render_render_def render_setup_settings)
next
  case (Raise e b)
  then show ?thesis
    by (simp add: render_tri_outcome)
qed

theorem render_tri_stream_same_bytes_witness:
  "is_Ok (render_tri object_count_image ''/tmp/tmpdir'' Stream
      triangle_vertices triangle_faces default_kwargs example_world)
   \<and> is_Ok (render_tri object_count_image ''/tmp/tmpdir'' (Filename ''out.png'')
      triangle_vertices triangle_faces default_kwargs example_world)
   \<and> stream (st (render_tri object_count_image ''/tmp/tmpdir'' Stream
      triangle_vertices triangle_faces default_kwargs example_world)) = [3]
   \<and> files (st (render_tri object_count_image ''/tmp/tmpdir'' (Filename ''out.png'')
      triangle_vertices triangle_faces default_kwargs example_world)) ''out.png'' = Some [3]"
proof -
  let ?s = "render_tri object_count_image ''/tmp/tmpdir'' Stream
      triangle_vertices triangle_faces default_kwargs example_world"
  let ?p = "render_tri object_count_image ''/tmp/tmpdir'' (Filename ''out.png'')
      triangle_vertices triangle_faces default_kwargs example_world"
  have h: "object_count_image (update_render (\<lambda>r. r\<lparr>filepath := q\<rparr>) b) = object_count_image b"
    for b q
    by (simp add: object_count_image_def update_render_def update_scene_def)
  have c: "colors default_kwargs = None"
    by (simp add: default_kwargs_def)
  have oks: "is_Ok ?s" and okp: "is_Ok ?p"
    by (rule triangle_render_Ok [OF c])+
  have l: "objects (context_scene (host (st ?p))) = [1, 2, 3]"
    using render_tri_links [OF is_Ok_D [OF okp]]
    by (simp add: example_world_def example_bpy_def)
  have f: "files (st ?p) ''out.png'' = Some (object_count_image (host (st ?p)))"
    using okp
    by (auto simp: render_tri_outcome ops_render_render_def render_setup_settings
        split: result.splits)
  have e: "stream example_world = []"
    by (simp add: example_world_def)
  show ?thesis
    using oks okp l f e
      render_tri_stream_same_bytes [of object_count_image "''/tmp/tmpdir''" triangle_vertices
        triangle_faces default_kwargs example_world "''out.png''", OF h]
    by (auto simp: object_count_image_def)
qed

end
